theory Spec2Isabelle
  imports Main "HOL-Library.Word"
begin

section \<open>Shared types of the protocol package\<close>

text \<open>
  The protocol package (states, agencies, state maps) is used by both mini-protocols.
  A state is built by \<^verbatim>\<open>protocol.NewState(id, name)\<close>; a state map sends a state to
  its entry: the agency, the list of transitions and a timeout.
  \<^verbatim>\<open>time.Duration\<close> is a signed 64-bit count of nanoseconds.
\<close>

type_synonym Duration = "64 word"

definition time_Second :: Duration where
  "time_Second = 1000000000"

record State =
  Id :: nat
  Name :: string

definition protocol_NewState :: "nat \<Rightarrow> string \<Rightarrow> State" where
  "protocol_NewState i n = \<lparr>Id = i, Name = n\<rparr>"

datatype Agency = AgencyNone | AgencyClient | AgencyServer

record 'm StateTransition =
  MsgType :: 'm
  NewState :: State

record 'm StateMapEntry =
  Agency :: Agency
  Transitions :: "'m StateTransition list"
  Timeout :: Duration

text \<open>
  A Go struct literal leaves the fields it does not name at their zero value:
  no transitions, timeout 0.
\<close>

definition stateMapEntry :: "Agency \<Rightarrow> 'm StateTransition list \<Rightarrow> 'm StateMapEntry" where
  "stateMapEntry a ts = \<lparr>Agency = a, Transitions = ts, Timeout = 0\<rparr>"

type_synonym 'm StateMap = "State \<rightharpoonup> 'm StateMapEntry"

section \<open>Package chainsync\<close>

subsection \<open>The state machine\<close>

text \<open>
  The message-type constants are declared with the messages of the package; the state map
  refers to them by name, and so does the model.
\<close>

datatype MessageType =
    MessageTypeRequestNext
  | MessageTypeAwaitReply
  | MessageTypeRollForward
  | MessageTypeRollBackward
  | MessageTypeFindIntersect
  | MessageTypeIntersectFound
  | MessageTypeIntersectNotFound
  | MessageTypeDone

definition stateIdle :: State where
  "stateIdle = protocol_NewState 1 ''Idle''"

definition stateCanAwait :: State where
  "stateCanAwait = protocol_NewState 2 ''CanAwait''"

definition stateMustReply :: State where
  "stateMustReply = protocol_NewState 3 ''MustReply''"

definition stateIntersect :: State where
  "stateIntersect = protocol_NewState 4 ''Intersect''"

definition stateDone :: State where
  "stateDone = protocol_NewState 5 ''Done''"

definition StateMap :: "MessageType StateMap" where
  "StateMap = map_of
     [(stateIdle, stateMapEntry AgencyClient
         [\<lparr>MsgType = MessageTypeRequestNext, NewState = stateCanAwait\<rparr>,
          \<lparr>MsgType = MessageTypeFindIntersect, NewState = stateIntersect\<rparr>,
          \<lparr>MsgType = MessageTypeDone, NewState = stateDone\<rparr>]),
      (stateCanAwait, stateMapEntry AgencyServer
         [\<lparr>MsgType = MessageTypeAwaitReply, NewState = stateMustReply\<rparr>,
          \<lparr>MsgType = MessageTypeRollForward, NewState = stateIdle\<rparr>,
          \<lparr>MsgType = MessageTypeRollBackward, NewState = stateIdle\<rparr>]),
      (stateIntersect, stateMapEntry AgencyServer
         [\<lparr>MsgType = MessageTypeIntersectFound, NewState = stateIdle\<rparr>,
          \<lparr>MsgType = MessageTypeIntersectNotFound, NewState = stateIdle\<rparr>]),
      (stateMustReply, stateMapEntry AgencyServer
         [\<lparr>MsgType = MessageTypeRollForward, NewState = stateIdle\<rparr>,
          \<lparr>MsgType = MessageTypeRollBackward, NewState = stateIdle\<rparr>]),
      (stateDone, stateMapEntry AgencyNone [])]"

text \<open>What the table of the specification lists for a state: its agency and the set of
  its outgoing transitions, each a message type and the state it leads to.\<close>

definition agencyOf :: "'m StateMap \<Rightarrow> State \<Rightarrow> Agency option" where
  "agencyOf sm s = map_option Agency (sm s)"

definition outgoing :: "'m StateMap \<Rightarrow> State \<Rightarrow> ('m \<times> State) set option" where
  "outgoing sm s = map_option (\<lambda>e. set (map (\<lambda>t. (MsgType t, NewState t)) (Transitions e))) (sm s)"

subsection \<open>Configuration\<close>

text \<open>
  The two callbacks are Go function values, \<^verbatim>\<open>nil\<close> when unset; their types are
  left open. \<^verbatim>\<open>PipelineLimit\<close> is a Go \<^verbatim>\<open>int\<close> that is only stored, never
  computed with.
\<close>

record ('rb, 'rf) Config =
  RollBackwardFunc :: "'rb option"
  RollForwardFunc :: "'rf option"
  IntersectTimeout :: Duration
  BlockTimeout :: Duration
  PipelineLimit :: int

type_synonym ('rb, 'rf) ChainSyncOptionFunc = "('rb, 'rf) Config \<Rightarrow> ('rb, 'rf) Config"

definition NewConfig :: "('rb, 'rf) ChainSyncOptionFunc list \<Rightarrow> ('rb, 'rf) Config" where
  "NewConfig options =
     fold (\<lambda>option c. option c) options
       \<lparr>RollBackwardFunc = None, RollForwardFunc = None,
        IntersectTimeout = 5 * time_Second,
        BlockTimeout = 180 * time_Second,
        PipelineLimit = 0\<rparr>"

definition WithRollBackwardFunc :: "'rb option \<Rightarrow> ('rb, 'rf) ChainSyncOptionFunc" where
  "WithRollBackwardFunc rollBackwardFunc = (\<lambda>c. c\<lparr>RollBackwardFunc := rollBackwardFunc\<rparr>)"

definition WithRollForwardFunc :: "'rf option \<Rightarrow> ('rb, 'rf) ChainSyncOptionFunc" where
  "WithRollForwardFunc rollForwardFunc = (\<lambda>c. c\<lparr>RollForwardFunc := rollForwardFunc\<rparr>)"

definition WithIntersectTimeout :: "Duration \<Rightarrow> ('rb, 'rf) ChainSyncOptionFunc" where
  "WithIntersectTimeout timeout = (\<lambda>c. c\<lparr>IntersectTimeout := timeout\<rparr>)"

definition WithBlockTimeout :: "Duration \<Rightarrow> ('rb, 'rf) ChainSyncOptionFunc" where
  "WithBlockTimeout timeout = (\<lambda>c. c\<lparr>BlockTimeout := timeout\<rparr>)"

definition WithPipelineLimit :: "int \<Rightarrow> ('rb, 'rf) ChainSyncOptionFunc" where
  "WithPipelineLimit limit = (\<lambda>c. c\<lparr>PipelineLimit := limit\<rparr>)"

section \<open>Package handshake: the client\<close>

text \<open>
  The names of package handshake that package chainsync also declares carry the suffix
  \<open>_hs\<close> here. The client's own file is the source of \<open>NewClient\<close>, \<open>Start\<close>,
  \<open>handleMessage\<close>, \<open>handleAcceptVersion\<close> and \<open>handleRefuse\<close>; the other
  declarations of the package and package protocol are not among the sources, and each
  definition that stands for one of them says so.
\<close>

subsection \<open>Dynamic values and errors\<close>

text \<open>
  Version data and refusal reasons are \<^verbatim>\<open>interface{}\<close> values. The dynamic types that
  occur are unsigned integers, booleans, strings and \<^verbatim>\<open>[]interface{}\<close>. An unchecked
  type assertion or an index out of range panics.
\<close>

datatype val =
    VUint8 "8 word"
  | VUint32 "32 word"
  | VUint64 "64 word"
  | VBool bool
  | VString string
  | VList "val list"

text \<open>\<^verbatim>\<open>fmt.Errorf(format, args...)\<close>: the error value, kept as format and arguments.\<close>

datatype error = Errorf string "val list"

datatype 'a outcome = Panic | Return 'a

text \<open>\<^verbatim>\<open>xs[i]\<close> on a slice: a run-time panic when \<open>i\<close> is out of range.\<close>

definition elemAt :: "'a list \<Rightarrow> nat \<Rightarrow> 'a option" where
  "elemAt xs i = (if i < length xs then Some (xs ! i) else None)"

subsection \<open>Constants and messages of the package\<close>

text \<open>
  Modelled from the spec: the constants below are declared in the package's handshake.go
  and messages.go, which are not among the sources. The values follow the specification:
  the diffusion mode is a boolean, false for InitiatorOnly and true for
  InitiatorAndResponder (section 6); the refusal reasons are the union VersionMismatch,
  DecodeError, Refused of section 3, with discriminant 0 for VersionMismatch (scenario 3)
  and the next two in order; the messages are ProposeVersions, AcceptVersion, Refuse in
  the order of section 3; the handshake protocol id is 0 (section 6); the protocol name,
  which only appears as an argument of error messages, is the protocol's name in lower
  case. The theorems below refer to the constants by name only.
\<close>

definition ProtocolName_hs :: string where
  "ProtocolName_hs = ''handshake''"

definition ProtocolId :: "16 word" where
  "ProtocolId = 0"

definition DiffusionModeInitiatorOnly :: bool where
  "DiffusionModeInitiatorOnly = False"

definition DiffusionModeInitiatorAndResponder :: bool where
  "DiffusionModeInitiatorAndResponder = True"

definition RefuseReasonVersionMismatch :: "64 word" where
  "RefuseReasonVersionMismatch = 0"

definition RefuseReasonDecodeError :: "64 word" where
  "RefuseReasonDecodeError = 1"

definition RefuseReasonRefused :: "64 word" where
  "RefuseReasonRefused = 2"

definition MessageTypeProposeVersions :: "8 word" where
  "MessageTypeProposeVersions = 0"

definition MessageTypeAcceptVersion :: "8 word" where
  "MessageTypeAcceptVersion = 1"

definition MessageTypeRefuse :: "8 word" where
  "MessageTypeRefuse = 2"

text \<open>
  Modelled from the spec: the three handshake messages of section 3. The version map of
  ProposeVersions is a Go \<^verbatim>\<open>map[uint16]interface{}\<close>; the reason of Refuse is a
  \<^verbatim>\<open>[]interface{}\<close> holding the discriminant and its payload.
\<close>

datatype Message =
    MsgProposeVersions "16 word \<rightharpoonup> val"
  | MsgAcceptVersion "16 word" val
  | MsgRefuse "val list"

definition NewMsgProposeVersions :: "(16 word \<rightharpoonup> val) \<Rightarrow> Message" where
  "NewMsgProposeVersions versionMap = MsgProposeVersions versionMap"

fun Type :: "Message \<Rightarrow> 8 word" where
  "Type (MsgProposeVersions _) = MessageTypeProposeVersions"
| "Type (MsgAcceptVersion _ _) = MessageTypeAcceptVersion"
| "Type (MsgRefuse _) = MessageTypeRefuse"

text \<open>
  Modelled from the spec: the handshake state machine of section 4.4 (Propose, Confirm,
  Done), as the package-level state map the client copies.
\<close>

definition statePropose :: State where
  "statePropose = protocol_NewState 1 ''Propose''"

definition stateConfirm :: State where
  "stateConfirm = protocol_NewState 2 ''Confirm''"

definition stateDone_hs :: State where
  "stateDone_hs = protocol_NewState 3 ''Done''"

definition StateMap_hs_literal :: "(8 word) StateMap" where
  "StateMap_hs_literal = map_of
     [(statePropose, stateMapEntry AgencyClient
         [\<lparr>MsgType = MessageTypeProposeVersions, NewState = stateConfirm\<rparr>]),
      (stateConfirm, stateMapEntry AgencyServer
         [\<lparr>MsgType = MessageTypeAcceptVersion, NewState = stateDone_hs\<rparr>,
          \<lparr>MsgType = MessageTypeRefuse, NewState = stateDone_hs\<rparr>]),
      (stateDone_hs, stateMapEntry AgencyNone [])]"

subsection \<open>Configuration\<close>

text \<open>
  The fields of the handshake configuration that the client reads. The completion
  callback \<^verbatim>\<open>FinishedFunc\<close> is a Go function value (\<^verbatim>\<open>nil\<close> when unset) that takes
  the version and the full-duplex flag and returns an error; what it does to the
  application is a change of a state \<open>'u\<close>.
\<close>

type_synonym 'u FinishedFunc = "16 word \<Rightarrow> bool \<Rightarrow> 'u \<Rightarrow> error option \<times> 'u"

record 'u Config_hs =
  ProtocolVersions :: "16 word list"
  NetworkMagic :: "32 word"
  ClientFullDuplex :: bool
  FinishedFunc :: "'u FinishedFunc option"
  Timeout_hs :: Duration

text \<open>
  Modelled from the spec: \<^verbatim>\<open>NewConfig()\<close> of package handshake with no options; the
  Confirm timeout defaults to 5 seconds (section 4.4), full duplex to false (section 6),
  the other fields to their zero values.
\<close>

definition NewConfig_hs :: "'u Config_hs" where
  "NewConfig_hs =
     \<lparr>ProtocolVersions = [], NetworkMagic = 0, ClientFullDuplex = False,
      FinishedFunc = None, Timeout_hs = 5 * time_Second\<rparr>"

subsection \<open>The store of state maps\<close>

text \<open>
  A Go map is a reference: the package variable \<^verbatim>\<open>StateMap\<close> and the client's
  \<^verbatim>\<open>stateMap\<close> each name a map object. The store holds the map objects, an address is
  an index into it, and allocation appends. Reading a map that was never allocated reads
  the nil map, which has no entry.
\<close>

type_synonym addr = nat

type_synonym store = "(8 word) StateMap list"

definition deref :: "store \<Rightarrow> addr \<Rightarrow> (8 word) StateMap" where
  "deref h a = (if a < length h then h ! a else Map.empty)"

text \<open>\<^verbatim>\<open>m[k] = v\<close> on the map object at address \<open>a\<close>.\<close>

definition mapassign :: "store \<Rightarrow> addr \<Rightarrow> State \<Rightarrow> (8 word) StateMapEntry \<Rightarrow> store" where
  "mapassign h a k v = h[a := (deref h a)(k \<mapsto> v)]"

text \<open>The package variable \<^verbatim>\<open>StateMap\<close> and the store when the package is initialised.\<close>

definition StateMap_hs :: addr where
  "StateMap_hs = 0"

definition initial_store :: store where
  "initial_store = [StateMap_hs_literal]"

text \<open>
  Modelled from the spec: \<^verbatim>\<open>protocol.StateMap.Copy\<close> is in package protocol, which is
  not among the sources. The state map is immutable and freely shared (sections 3 and 5),
  so a client that installs its timeout works on a map object of its own: Copy allocates
  a new map object with the entries of the receiver and returns its address.
\<close>

definition Copy :: "addr \<Rightarrow> store \<Rightarrow> addr \<times> store" where
  "Copy a h = (length h, h @ [deref h a])"

subsection \<open>The protocol instance\<close>

text \<open>
  Modelled from the spec: package protocol is not among the sources. Of a protocol
  instance the model keeps the configuration \<^verbatim>\<open>protocol.New\<close> was given (the two
  function-valued fields apart) and the calls of \<^verbatim>\<open>Start\<close> and \<^verbatim>\<open>SendMessage\<close>
  it received, in order. \<^verbatim>\<open>Mode()\<close> reads the configured mode, one of the two modes of
  section 3. The muxer and the error channel are handles.
\<close>

datatype ProtocolMode = ProtocolModeNodeToClient | ProtocolModeNodeToNode

datatype ProtocolRole = ProtocolRoleClient | ProtocolRoleServer

record ProtocolOptions =
  Muxer :: nat
  ErrorChan :: nat
  Mode :: ProtocolMode

record ProtocolConfig =
  Name_pc :: string
  ProtocolId_pc :: "16 word"
  Muxer_pc :: nat
  ErrorChan_pc :: nat
  Mode_pc :: ProtocolMode
  Role_pc :: ProtocolRole
  StateMap_pc :: addr
  InitialState_pc :: State

datatype ProtocolCall = CallStart | CallSendMessage Message

record Protocol =
  config_pc :: ProtocolConfig
  calls :: "ProtocolCall list"

definition protocol_New :: "ProtocolConfig \<Rightarrow> Protocol" where
  "protocol_New protoConfig = \<lparr>config_pc = protoConfig, calls = []\<rparr>"

definition Protocol_Start :: "Protocol \<Rightarrow> Protocol" where
  "Protocol_Start p = p\<lparr>calls := calls p @ [CallStart]\<rparr>"

definition SendMessage :: "Protocol \<Rightarrow> Message \<Rightarrow> Protocol" where
  "SendMessage p msg = p\<lparr>calls := calls p @ [CallSendMessage msg]\<rparr>"

subsection \<open>The client\<close>

text \<open>\<^verbatim>\<open>onceStart\<close> is a \<^verbatim>\<open>sync.Once\<close>: the flag says whether its \<^verbatim>\<open>Do\<close> has run.\<close>

record 'u Client =
  Protocol :: Protocol
  config :: "'u Config_hs"
  onceStart :: bool

definition ClientMode :: "'u Client \<Rightarrow> ProtocolMode" where
  "ClientMode c = Mode_pc (config_pc (Protocol c))"

definition NewClient :: "ProtocolOptions \<Rightarrow> 'u Config_hs option \<Rightarrow> store \<Rightarrow> 'u Client \<times> store" where
  "NewClient protoOptions cfg h =
     (let cfg = (case cfg of None \<Rightarrow> NewConfig_hs | Some cfg \<Rightarrow> cfg);
          (stateMap, h) = Copy StateMap_hs h;
          h = (case deref h stateMap stateConfirm of
                 Some entry \<Rightarrow> mapassign h stateMap stateConfirm (entry\<lparr>Timeout := Timeout_hs cfg\<rparr>)
               | None \<Rightarrow> h);
          protoConfig =
            \<lparr>Name_pc = ProtocolName_hs,
             ProtocolId_pc = ProtocolId,
             Muxer_pc = Muxer protoOptions,
             ErrorChan_pc = ErrorChan protoOptions,
             Mode_pc = Mode protoOptions,
             Role_pc = ProtocolRoleClient,
             StateMap_pc = stateMap,
             InitialState_pc = statePropose\<rparr>
      in (\<lparr>Protocol = protocol_New protoConfig, config = cfg, onceStart = False\<rparr>, h))"

text \<open>The loop of \<^verbatim>\<open>Start\<close> that fills the version map, one assignment per configured
  version, in the order of \<^verbatim>\<open>ProtocolVersions\<close>.\<close>

definition proposedVersionMap :: "'u Client \<Rightarrow> (16 word \<rightharpoonup> val)" where
  "proposedVersionMap c =
     (let diffusionMode =
            (if ClientFullDuplex (config c) then DiffusionModeInitiatorAndResponder
             else DiffusionModeInitiatorOnly)
      in fold (\<lambda>version versionMap.
                 if ClientMode c = ProtocolModeNodeToNode
                 then versionMap(version \<mapsto> VList [VUint32 (NetworkMagic (config c)), VBool diffusionMode])
                 else versionMap(version \<mapsto> VUint32 (NetworkMagic (config c))))
              (ProtocolVersions (config c)) Map.empty)"

definition Start :: "'u Client \<Rightarrow> 'u Client" where
  "Start c =
     (if onceStart c then c
      else
        (let p = Protocol_Start (Protocol c);
             msg = NewMsgProposeVersions (proposedVersionMap c);
             p = SendMessage p msg
         in c\<lparr>Protocol := p, onceStart := True\<rparr>))"

definition handleAcceptVersion :: "'u Client \<Rightarrow> Message \<Rightarrow> 'u \<Rightarrow> (error option \<times> 'u) outcome" where
  "handleAcceptVersion c msgGeneric u =
     (case FinishedFunc (config c) of
        None \<Rightarrow>
          Return (Some (Errorf ''received handshake AcceptVersion message but no callback function is defined'' []), u)
      | Some finished \<Rightarrow>
          (case msgGeneric of
             MsgAcceptVersion version versionData \<Rightarrow>
               if ClientMode c = ProtocolModeNodeToNode then
                 (case versionData of
                    VList versionData \<Rightarrow>
                      (case elemAt versionData 1 of
                         Some (VBool b) \<Rightarrow>
                           Return (finished version
                                     (if b = DiffusionModeInitiatorAndResponder then True else False) u)
                       | _ \<Rightarrow> Panic)
                  | _ \<Rightarrow> Panic)
               else Return (finished version False u)
           | _ \<Rightarrow> Panic))"

definition handleRefuse :: "'u Client \<Rightarrow> Message \<Rightarrow> error option outcome" where
  "handleRefuse c msgGeneric =
     (case msgGeneric of
        MsgRefuse reason \<Rightarrow>
          (case elemAt reason 0 of
             Some (VUint64 d) \<Rightarrow>
               if d = RefuseReasonVersionMismatch then
                 Return (Some (Errorf ''%s: version mismatch'' [VString ProtocolName_hs]))
               else if d = RefuseReasonDecodeError then
                 (case elemAt reason 2 of
                    Some (VString s) \<Rightarrow>
                      Return (Some (Errorf ''%s: decode error: %s'' [VString ProtocolName_hs, VString s]))
                  | _ \<Rightarrow> Panic)
               else if d = RefuseReasonRefused then
                 (case elemAt reason 2 of
                    Some (VString s) \<Rightarrow>
                      Return (Some (Errorf ''%s: refused: %s'' [VString ProtocolName_hs, VString s]))
                  | _ \<Rightarrow> Panic)
               else Return None
           | _ \<Rightarrow> Panic)
      | _ \<Rightarrow> Panic)"

definition handleMessage :: "'u Client \<Rightarrow> Message \<Rightarrow> bool \<Rightarrow> 'u \<Rightarrow> (error option \<times> 'u) outcome" where
  "handleMessage c msg isResponse u =
     (if Type msg = MessageTypeAcceptVersion then handleAcceptVersion c msg u
      else if Type msg = MessageTypeRefuse then
        (case handleRefuse c msg of Panic \<Rightarrow> Panic | Return err \<Rightarrow> Return (err, u))
      else Return (Some (Errorf ''%s: received unexpected message type %d''
                           [VString ProtocolName_hs, VUint8 (Type msg)]), u))"

subsection \<open>Notions used to state the properties of the client\<close>

text \<open>
  The second element of version data, the one \<^verbatim>\<open>handleAcceptVersion\<close> reads as
  \<^verbatim>\<open>versionData[1]\<close>; there is none when the version data is not an array or is
  shorter than two elements.
\<close>

definition secondElement :: "val \<Rightarrow> val option" where
  "secondElement versionData = (case versionData of VList xs \<Rightarrow> elemAt xs 1 | _ \<Rightarrow> None)"

text \<open>
  The shape of version data on the wire (section 6 of the specification): in NodeToNode
  mode an array whose second element is the boolean diffusion mode; in NodeToClient mode
  the client does not look into it.
\<close>

definition versionDataWellFormed :: "ProtocolMode \<Rightarrow> val \<Rightarrow> bool" where
  "versionDataWellFormed mode versionData =
     (case mode of
        ProtocolModeNodeToClient \<Rightarrow> True
      | ProtocolModeNodeToNode \<Rightarrow>
          (case secondElement versionData of Some (VBool _) \<Rightarrow> True | _ \<Rightarrow> False))"

text \<open>A completion callback that appends its arguments to a log and returns no error.\<close>

definition recordFinished :: "((16 word \<times> bool) list) FinishedFunc" where
  "recordFinished version fullDuplex u = (None, u @ [(version, fullDuplex)])"

text \<open>A sequence of calls of \<^verbatim>\<open>NewClient\<close>, each with its own options and
  configuration, run on a store.\<close>

definition NewClient_calls :: "(ProtocolOptions \<times> 'u Config_hs option) list \<Rightarrow> store \<Rightarrow> store" where
  "NewClient_calls args h = fold (\<lambda>(protoOptions, cfg) h. snd (NewClient protoOptions cfg h)) args h"

text \<open>The client that \<^verbatim>\<open>NewClient\<close> returns first, for a mode and a configuration.\<close>

definition exampleClient :: "ProtocolMode \<Rightarrow> 'u Config_hs option \<Rightarrow> 'u Client" where
  "exampleClient mode cfg = fst (NewClient \<lparr>Muxer = 0, ErrorChan = 0, Mode = mode\<rparr> cfg initial_store)"

text \<open>
  Modelled from the spec: the encoding of a ProposeVersions message belongs to the
  package's messages.go and to the codec, which are not among the sources (the codec is
  outside the scope of the specification, section 1). Section 4.4 fixes the order in
  which the keys of the version map are written: ascending numeric order. The Go map
  itself has no order.
\<close>

definition emittedVersions :: "Message \<Rightarrow> 16 word list" where
  "emittedVersions msg =
     (case msg of MsgProposeVersions versionMap \<Rightarrow> sorted_list_of_set (dom versionMap) | _ \<Rightarrow> [])"

section \<open>Properties of package chainsync\<close>

lemma chainsync_states_distinct:
  "distinct [stateIdle, stateCanAwait, stateMustReply, stateIntersect, stateDone]"
  by (simp add: stateIdle_def stateCanAwait_def stateMustReply_def stateIntersect_def
      stateDone_def protocol_NewState_def)

lemma StateMap_dom:
  "dom StateMap = {stateIdle, stateCanAwait, stateMustReply, stateIntersect, stateDone}"
  unfolding StateMap_def by (simp add: dom_map_of_conv_image_fst insert_commute)

lemma StateMap_Idle:
  "StateMap stateIdle = Some (stateMapEntry AgencyClient
         [\<lparr>MsgType = MessageTypeRequestNext, NewState = stateCanAwait\<rparr>,
          \<lparr>MsgType = MessageTypeFindIntersect, NewState = stateIntersect\<rparr>,
          \<lparr>MsgType = MessageTypeDone, NewState = stateDone\<rparr>])"
  unfolding StateMap_def by simp

lemma StateMap_CanAwait:
  "StateMap stateCanAwait = Some (stateMapEntry AgencyServer
         [\<lparr>MsgType = MessageTypeAwaitReply, NewState = stateMustReply\<rparr>,
          \<lparr>MsgType = MessageTypeRollForward, NewState = stateIdle\<rparr>,
          \<lparr>MsgType = MessageTypeRollBackward, NewState = stateIdle\<rparr>])"
  using chainsync_states_distinct unfolding StateMap_def by auto

lemma StateMap_Intersect:
  "StateMap stateIntersect = Some (stateMapEntry AgencyServer
         [\<lparr>MsgType = MessageTypeIntersectFound, NewState = stateIdle\<rparr>,
          \<lparr>MsgType = MessageTypeIntersectNotFound, NewState = stateIdle\<rparr>])"
  using chainsync_states_distinct unfolding StateMap_def by auto

lemma StateMap_MustReply:
  "StateMap stateMustReply = Some (stateMapEntry AgencyServer
         [\<lparr>MsgType = MessageTypeRollForward, NewState = stateIdle\<rparr>,
          \<lparr>MsgType = MessageTypeRollBackward, NewState = stateIdle\<rparr>])"
  using chainsync_states_distinct unfolding StateMap_def by auto

lemma StateMap_Done:
  "StateMap stateDone = Some (stateMapEntry AgencyNone [])"
  using chainsync_states_distinct unfolding StateMap_def by auto

text \<open>
  C1. The ChainSync state machine has exactly the five states Idle, CanAwait, MustReply,
  Intersect and Done (pairwise different), with agencies Client, Server, Server, Server and
  None, and the set of outgoing transitions of each state is the one the table of the
  specification lists; Done has none.
\<close>

theorem C1_chainsync_state_machine:
  "dom StateMap = {stateIdle, stateCanAwait, stateMustReply, stateIntersect, stateDone}
   \<and> distinct [stateIdle, stateCanAwait, stateMustReply, stateIntersect, stateDone]
   \<and> map Name [stateIdle, stateCanAwait, stateMustReply, stateIntersect, stateDone]
       = [''Idle'', ''CanAwait'', ''MustReply'', ''Intersect'', ''Done'']
   \<and> map (agencyOf StateMap) [stateIdle, stateCanAwait, stateMustReply, stateIntersect, stateDone]
       = [Some AgencyClient, Some AgencyServer, Some AgencyServer, Some AgencyServer, Some AgencyNone]
   \<and> outgoing StateMap stateIdle =
       Some {(MessageTypeRequestNext, stateCanAwait), (MessageTypeFindIntersect, stateIntersect),
             (MessageTypeDone, stateDone)}
   \<and> outgoing StateMap stateCanAwait =
       Some {(MessageTypeAwaitReply, stateMustReply), (MessageTypeRollForward, stateIdle),
             (MessageTypeRollBackward, stateIdle)}
   \<and> outgoing StateMap stateMustReply =
       Some {(MessageTypeRollForward, stateIdle), (MessageTypeRollBackward, stateIdle)}
   \<and> outgoing StateMap stateIntersect =
       Some {(MessageTypeIntersectFound, stateIdle), (MessageTypeIntersectNotFound, stateIdle)}
   \<and> outgoing StateMap stateDone = Some {}"
proof -
  have names: "map Name [stateIdle, stateCanAwait, stateMustReply, stateIntersect, stateDone]
       = [''Idle'', ''CanAwait'', ''MustReply'', ''Intersect'', ''Done'']"
    by (simp add: stateIdle_def stateCanAwait_def stateMustReply_def stateIntersect_def
        stateDone_def protocol_NewState_def)
  have ag: "map (agencyOf StateMap)
        [stateIdle, stateCanAwait, stateMustReply, stateIntersect, stateDone]
       = [Some AgencyClient, Some AgencyServer, Some AgencyServer, Some AgencyServer, Some AgencyNone]"
    by (simp add: agencyOf_def stateMapEntry_def StateMap_Idle StateMap_CanAwait StateMap_MustReply
        StateMap_Intersect StateMap_Done)
  have o1: "outgoing StateMap stateIdle =
       Some {(MessageTypeRequestNext, stateCanAwait), (MessageTypeFindIntersect, stateIntersect),
             (MessageTypeDone, stateDone)}"
    by (simp add: outgoing_def stateMapEntry_def StateMap_Idle)
  have o2: "outgoing StateMap stateCanAwait =
       Some {(MessageTypeAwaitReply, stateMustReply), (MessageTypeRollForward, stateIdle),
             (MessageTypeRollBackward, stateIdle)}"
    by (simp add: outgoing_def stateMapEntry_def StateMap_CanAwait)
  have o3: "outgoing StateMap stateMustReply =
       Some {(MessageTypeRollForward, stateIdle), (MessageTypeRollBackward, stateIdle)}"
    by (simp add: outgoing_def stateMapEntry_def StateMap_MustReply)
  have o4: "outgoing StateMap stateIntersect =
       Some {(MessageTypeIntersectFound, stateIdle), (MessageTypeIntersectNotFound, stateIdle)}"
    by (simp add: outgoing_def stateMapEntry_def StateMap_Intersect)
  have o5: "outgoing StateMap stateDone = Some {}"
    by (simp add: outgoing_def stateMapEntry_def StateMap_Done)
  from StateMap_dom chainsync_states_distinct names ag o1 o2 o3 o4 o5 show ?thesis
    by blast
qed

lemma NewConfig_snoc: "NewConfig (options @ [option]) = option (NewConfig options)"
  by (simp add: NewConfig_def)

text \<open>
  C7. A configuration built by NewConfig with no options has PipelineLimit 0,
  IntersectTimeout 5 seconds (5000000000 ns) and BlockTimeout 180 seconds (180000000000 ns),
  and no callback; each With* option sets its own field to the value given and leaves the
  other four fields as they were.
\<close>

theorem C7_NewConfig_defaults_and_options:
  "PipelineLimit (NewConfig []) = 0
   \<and> IntersectTimeout (NewConfig []) = 5 * time_Second
   \<and> sint (IntersectTimeout (NewConfig [])) = 5000000000
   \<and> BlockTimeout (NewConfig []) = 180 * time_Second
   \<and> sint (BlockTimeout (NewConfig [])) = 180000000000
   \<and> RollBackwardFunc (NewConfig []) = None
   \<and> RollForwardFunc (NewConfig []) = None
   \<and> (RollBackwardFunc (WithRollBackwardFunc rb c) = rb
      \<and> RollForwardFunc (WithRollBackwardFunc rb c) = RollForwardFunc c
      \<and> IntersectTimeout (WithRollBackwardFunc rb c) = IntersectTimeout c
      \<and> BlockTimeout (WithRollBackwardFunc rb c) = BlockTimeout c
      \<and> PipelineLimit (WithRollBackwardFunc rb c) = PipelineLimit c)
   \<and> (RollBackwardFunc (WithRollForwardFunc rf c) = RollBackwardFunc c
      \<and> RollForwardFunc (WithRollForwardFunc rf c) = rf
      \<and> IntersectTimeout (WithRollForwardFunc rf c) = IntersectTimeout c
      \<and> BlockTimeout (WithRollForwardFunc rf c) = BlockTimeout c
      \<and> PipelineLimit (WithRollForwardFunc rf c) = PipelineLimit c)
   \<and> (RollBackwardFunc (WithIntersectTimeout t c) = RollBackwardFunc c
      \<and> RollForwardFunc (WithIntersectTimeout t c) = RollForwardFunc c
      \<and> IntersectTimeout (WithIntersectTimeout t c) = t
      \<and> BlockTimeout (WithIntersectTimeout t c) = BlockTimeout c
      \<and> PipelineLimit (WithIntersectTimeout t c) = PipelineLimit c)
   \<and> (RollBackwardFunc (WithBlockTimeout t c) = RollBackwardFunc c
      \<and> RollForwardFunc (WithBlockTimeout t c) = RollForwardFunc c
      \<and> IntersectTimeout (WithBlockTimeout t c) = IntersectTimeout c
      \<and> BlockTimeout (WithBlockTimeout t c) = t
      \<and> PipelineLimit (WithBlockTimeout t c) = PipelineLimit c)
   \<and> (RollBackwardFunc (WithPipelineLimit n c) = RollBackwardFunc c
      \<and> RollForwardFunc (WithPipelineLimit n c) = RollForwardFunc c
      \<and> IntersectTimeout (WithPipelineLimit n c) = IntersectTimeout c
      \<and> BlockTimeout (WithPipelineLimit n c) = BlockTimeout c
      \<and> PipelineLimit (WithPipelineLimit n c) = n)
   \<and> NewConfig (options @ [WithPipelineLimit n]) = (NewConfig options)\<lparr>PipelineLimit := n\<rparr>
   \<and> NewConfig (options @ [WithIntersectTimeout t]) = (NewConfig options)\<lparr>IntersectTimeout := t\<rparr>
   \<and> NewConfig (options @ [WithBlockTimeout t]) = (NewConfig options)\<lparr>BlockTimeout := t\<rparr>
   \<and> NewConfig (options @ [WithRollBackwardFunc rb]) = (NewConfig options)\<lparr>RollBackwardFunc := rb\<rparr>
   \<and> NewConfig (options @ [WithRollForwardFunc rf]) = (NewConfig options)\<lparr>RollForwardFunc := rf\<rparr>"
proof -
  have d: "PipelineLimit (NewConfig []) = 0
      \<and> IntersectTimeout (NewConfig []) = 5 * time_Second
      \<and> sint (IntersectTimeout (NewConfig [])) = 5000000000
      \<and> BlockTimeout (NewConfig []) = 180 * time_Second
      \<and> sint (BlockTimeout (NewConfig [])) = 180000000000
      \<and> RollBackwardFunc (NewConfig []) = None
      \<and> RollForwardFunc (NewConfig []) = None"
    by (simp add: NewConfig_def time_Second_def)
  have w: "NewConfig (options @ [WithPipelineLimit n]) = (NewConfig options)\<lparr>PipelineLimit := n\<rparr>
      \<and> NewConfig (options @ [WithIntersectTimeout t]) = (NewConfig options)\<lparr>IntersectTimeout := t\<rparr>
      \<and> NewConfig (options @ [WithBlockTimeout t]) = (NewConfig options)\<lparr>BlockTimeout := t\<rparr>
      \<and> NewConfig (options @ [WithRollBackwardFunc rb]) = (NewConfig options)\<lparr>RollBackwardFunc := rb\<rparr>
      \<and> NewConfig (options @ [WithRollForwardFunc rf]) = (NewConfig options)\<lparr>RollForwardFunc := rf\<rparr>"
    by (simp add: NewConfig_snoc WithPipelineLimit_def WithIntersectTimeout_def
        WithBlockTimeout_def WithRollBackwardFunc_def WithRollForwardFunc_def)
  from d w show ?thesis
    by (simp add: WithPipelineLimit_def WithIntersectTimeout_def
        WithBlockTimeout_def WithRollBackwardFunc_def WithRollForwardFunc_def)
qed

section \<open>Properties of the handshake client\<close>

subsection \<open>Construction\<close>

lemma NewClient_config:
  "config (fst (NewClient po cfg h)) = (case cfg of None \<Rightarrow> NewConfig_hs | Some c \<Rightarrow> c)"
  "ClientMode (fst (NewClient po cfg h)) = Mode po"
  "onceStart (fst (NewClient po cfg h)) = False"
  "calls (Protocol (fst (NewClient po cfg h))) = []"
  by (simp_all add: NewClient_def Let_def ClientMode_def protocol_New_def Copy_def
      split: option.splits prod.splits)

lemma Copy_store: "Copy a h = (length h, h @ [deref h a])"
  by (simp add: Copy_def)

lemma deref_append: "a < length h \<Longrightarrow> deref (h @ ms) a = deref h a"
  by (simp add: deref_def nth_append)

lemma deref_fresh: "deref (h @ [m]) (length h) = m"
  by (simp add: deref_def)

lemma mapassign_fresh: "mapassign (h @ [m]) (length h) k v = h @ [m(k \<mapsto> v)]"
  by (simp add: mapassign_def deref_def)

text \<open>An assignment through an address is seen by every reader of that address: had the
  client assigned through the package variable, the shared map would have changed.\<close>

lemma mapassign_shared: "a < length h \<Longrightarrow> deref (mapassign h a k v) a k = Some v"
  by (simp add: mapassign_def deref_def)

text \<open>The store after \<^verbatim>\<open>NewClient\<close>: the old store, and one new map object.\<close>

lemma NewClient_store:
  "snd (NewClient protoOptions cfg h) =
     h @ [case deref h StateMap_hs stateConfirm of
            None \<Rightarrow> deref h StateMap_hs
          | Some e \<Rightarrow> (deref h StateMap_hs)(stateConfirm \<mapsto>
              e\<lparr>Timeout := Timeout_hs (case cfg of None \<Rightarrow> NewConfig_hs | Some c \<Rightarrow> c)\<rparr>)]"
  by (simp add: NewClient_def Copy_store deref_fresh mapassign_fresh Let_def split: option.splits)

lemma NewClient_stateMap:
  "StateMap_pc (config_pc (Protocol (fst (NewClient protoOptions cfg h)))) = length h"
  by (simp add: NewClient_def Copy_store Let_def protocol_New_def split: option.splits)

lemma NewClient_calls_extends: "\<exists>ms. NewClient_calls args h = h @ ms"
proof (induction args arbitrary: h)
  case Nil
  then show ?case by (simp add: NewClient_calls_def)
next
  case (Cons a args)
  obtain po cfg where a: "a = (po, cfg)" by (cases a)
  obtain m where m: "snd (NewClient po cfg h) = h @ [m]"
    using NewClient_store by blast
  from Cons.IH [of "h @ [m]"] obtain ms where "NewClient_calls args (h @ [m]) = (h @ [m]) @ ms"
    by blast
  with a m show ?case by (simp add: NewClient_calls_def)
qed

text \<open>Every map object that exists before a sequence of \<^verbatim>\<open>NewClient\<close> calls is the
  same after it.\<close>

lemma NewClient_calls_frame:
  assumes "a < length h"
  shows "deref (NewClient_calls args h) a = deref h a"
proof -
  obtain ms where "NewClient_calls args h = h @ ms"
    using NewClient_calls_extends by blast
  with assms show ?thesis by (simp add: deref_append)
qed

lemma StateMap_hs_Confirm:
  "StateMap_hs_literal stateConfirm = Some (stateMapEntry AgencyServer
         [\<lparr>MsgType = MessageTypeAcceptVersion, NewState = stateDone_hs\<rparr>,
          \<lparr>MsgType = MessageTypeRefuse, NewState = stateDone_hs\<rparr>])"
  by (simp add: StateMap_hs_literal_def statePropose_def stateConfirm_def protocol_NewState_def)

text \<open>
  C9. Constructing handshake clients leaves the package-level state map as it was: after
  any sequence of NewClient calls, with any options and configurations (a nil
  configuration included), the map object the package variable StateMap names holds its
  initial value. The configured Confirm timeout is installed in a map object of the
  client's own, at another address.
\<close>

theorem C9_NewClient_leaves_StateMap:
  "deref (NewClient_calls args initial_store) StateMap_hs = deref initial_store StateMap_hs
   \<and> deref (NewClient_calls args initial_store) StateMap_hs = StateMap_hs_literal
   \<and> StateMap_pc (config_pc (Protocol (fst (NewClient protoOptions cfg (NewClient_calls args initial_store)))))
       \<noteq> StateMap_hs
   \<and> map_option Timeout
        (deref (snd (NewClient protoOptions cfg (NewClient_calls args initial_store)))
           (StateMap_pc (config_pc (Protocol (fst (NewClient protoOptions cfg (NewClient_calls args initial_store))))))
           stateConfirm)
       = Some (Timeout_hs (config (fst (NewClient protoOptions cfg (NewClient_calls args initial_store)))))"
proof -
  let ?h = "NewClient_calls args initial_store"
  have a: "StateMap_hs < length initial_store"
    by (simp add: StateMap_hs_def initial_store_def)
  have 1: "deref ?h StateMap_hs = deref initial_store StateMap_hs"
    using a by (rule NewClient_calls_frame)
  have 2: "deref initial_store StateMap_hs = StateMap_hs_literal"
    by (simp add: deref_def StateMap_hs_def initial_store_def)
  obtain ms where ms: "?h = initial_store @ ms"
    using NewClient_calls_extends by blast
  then have 3: "length ?h \<noteq> StateMap_hs"
    by (simp add: StateMap_hs_def initial_store_def)
  have 4: "map_option Timeout
        (deref (snd (NewClient protoOptions cfg ?h)) (length ?h) stateConfirm)
       = Some (Timeout_hs (config (fst (NewClient protoOptions cfg ?h))))"
    by (simp add: NewClient_store NewClient_config deref_fresh 1 2 StateMap_hs_Confirm)
  from 1 2 3 4 show ?thesis
    by (simp add: NewClient_stateMap)
qed

subsection \<open>Start\<close>

lemma fold_upd_const:
  "fold (\<lambda>k m. m(k \<mapsto> v)) xs m0 = (\<lambda>k. if k \<in> set xs then Some v else m0 k)"
  by (induction xs arbitrary: m0) (auto simp: fun_eq_iff)

lemma proposedVersionMap_eq:
  "proposedVersionMap c =
     (\<lambda>version. if version \<in> set (ProtocolVersions (config c))
        then Some (if ClientMode c = ProtocolModeNodeToNode
                   then VList [VUint32 (NetworkMagic (config c)),
                               VBool (if ClientFullDuplex (config c)
                                      then DiffusionModeInitiatorAndResponder
                                      else DiffusionModeInitiatorOnly)]
                   else VUint32 (NetworkMagic (config c)))
        else None)"
proof (cases "ClientMode c = ProtocolModeNodeToNode")
  case True
  then show ?thesis
    by (simp add: proposedVersionMap_def Let_def fold_upd_const)
next
  case False
  then show ?thesis
    by (simp add: proposedVersionMap_def Let_def fold_upd_const)
qed

lemma dom_proposedVersionMap: "dom (proposedVersionMap c) = set (ProtocolVersions (config c))"
  by (auto simp: proposedVersionMap_eq dom_def)

lemma Start_fresh:
  "\<not> onceStart c \<Longrightarrow>
     Start c = c\<lparr>Protocol := (Protocol c)\<lparr>calls := calls (Protocol c) @
                   [CallStart, CallSendMessage (MsgProposeVersions (proposedVersionMap c))]\<rparr>,
                 onceStart := True\<rparr>"
  by (simp add: Start_def Let_def Protocol_Start_def SendMessage_def NewMsgProposeVersions_def)

lemma Start_done: "onceStart c \<Longrightarrow> Start c = c"
  by (simp add: Start_def)

lemma onceStart_Start: "onceStart (Start c)"
  by (simp add: Start_def Let_def)

lemma Start_Start: "Start (Start c) = Start c"
  by (simp add: Start_done onceStart_Start)

lemma Start_funpow: "(Start ^^ Suc n) c = Start c"
  by (induction n) (simp_all add: Start_Start)

text \<open>
  C5. On Start (the first one, which runs the body), the ProposeVersions message carries
  the proposed version map, and that map assigns to every configured protocol version: in
  NodeToNode mode the two-element array of the network magic and the diffusion mode, the
  latter InitiatorAndResponder when ClientFullDuplex is configured and InitiatorOnly
  otherwise; in NodeToClient mode the network magic alone.
\<close>

theorem C5_proposed_version_map:
  assumes "version \<in> set (ProtocolVersions (config c))" and "\<not> onceStart c"
  shows "calls (Protocol (Start c)) =
           calls (Protocol c) @ [CallStart, CallSendMessage (MsgProposeVersions (proposedVersionMap c))]
         \<and> proposedVersionMap c version =
           Some (if ClientMode c = ProtocolModeNodeToNode
                 then VList [VUint32 (NetworkMagic (config c)),
                             VBool (if ClientFullDuplex (config c)
                                    then DiffusionModeInitiatorAndResponder
                                    else DiffusionModeInitiatorOnly)]
                 else VUint32 (NetworkMagic (config c)))"
  using assms by (simp add: Start_fresh proposedVersionMap_eq)

theorem C5_proposed_version_map_witness:
  "proposedVersionMap
     (exampleClient ProtocolModeNodeToNode
        (Some \<lparr>ProtocolVersions = [7, 8], NetworkMagic = 764824073, ClientFullDuplex = True,
               FinishedFunc = Some recordFinished, Timeout_hs = 5 * time_Second\<rparr>)) 8
     = Some (VList [VUint32 764824073, VBool DiffusionModeInitiatorAndResponder])
   \<and> proposedVersionMap
     (exampleClient ProtocolModeNodeToNode
        (Some \<lparr>ProtocolVersions = [7, 8], NetworkMagic = 764824073, ClientFullDuplex = False,
               FinishedFunc = Some recordFinished, Timeout_hs = 5 * time_Second\<rparr>)) 7
     = Some (VList [VUint32 764824073, VBool DiffusionModeInitiatorOnly])
   \<and> proposedVersionMap
     (exampleClient ProtocolModeNodeToClient
        (Some \<lparr>ProtocolVersions = [1], NetworkMagic = 764824073, ClientFullDuplex = False,
               FinishedFunc = Some recordFinished, Timeout_hs = 5 * time_Second\<rparr>)) 1
     = Some (VUint32 764824073)"
  using C5_proposed_version_map [of 8
      "exampleClient ProtocolModeNodeToNode
        (Some \<lparr>ProtocolVersions = [7, 8], NetworkMagic = 764824073, ClientFullDuplex = True,
               FinishedFunc = Some recordFinished, Timeout_hs = 5 * time_Second\<rparr>)"]
    C5_proposed_version_map [of 7
      "exampleClient ProtocolModeNodeToNode
        (Some \<lparr>ProtocolVersions = [7, 8], NetworkMagic = 764824073, ClientFullDuplex = False,
               FinishedFunc = Some recordFinished, Timeout_hs = 5 * time_Second\<rparr>)"]
    C5_proposed_version_map [of 1
      "exampleClient ProtocolModeNodeToClient
        (Some \<lparr>ProtocolVersions = [1], NetworkMagic = 764824073, ClientFullDuplex = False,
               FinishedFunc = Some recordFinished, Timeout_hs = 5 * time_Second\<rparr>)"]
  by (simp add: exampleClient_def NewClient_config)

text \<open>
  C6. On Start (the first one, which runs the body), the message handed to SendMessage is
  the ProposeVersions message of the proposed version map, and the version numbers of
  that message are written in ascending numeric order, each configured version once.
\<close>

theorem C6_versions_ascending:
  assumes "\<not> onceStart c"
  shows "calls (Protocol (Start c)) =
           calls (Protocol c) @
             [CallStart, CallSendMessage (NewMsgProposeVersions (proposedVersionMap c))]
         \<and> sorted (map unat (emittedVersions (NewMsgProposeVersions (proposedVersionMap c))))
         \<and> distinct (emittedVersions (NewMsgProposeVersions (proposedVersionMap c)))
         \<and> set (emittedVersions (NewMsgProposeVersions (proposedVersionMap c)))
             = set (ProtocolVersions (config c))"
proof -
  let ?ks = "sorted_list_of_set (set (ProtocolVersions (config c)))"
  have s: "calls (Protocol (Start c)) =
           calls (Protocol c) @
             [CallStart, CallSendMessage (NewMsgProposeVersions (proposedVersionMap c))]"
    using assms by (simp add: Start_fresh NewMsgProposeVersions_def)
  have e: "emittedVersions (NewMsgProposeVersions (proposedVersionMap c)) = ?ks"
    by (simp add: emittedVersions_def NewMsgProposeVersions_def dom_proposedVersionMap)
  have "sorted ?ks" by simp
  then have "sorted (map unat ?ks)"
    by (simp add: sorted_map sorted_wrt_iff_nth_less word_le_nat_alt)
  with s e show ?thesis by simp
qed

theorem C6_versions_ascending_witness:
  "calls (Protocol (Start (exampleClient ProtocolModeNodeToNode
        (Some \<lparr>ProtocolVersions = [10, 7, 9, 7], NetworkMagic = 764824073, ClientFullDuplex = True,
               FinishedFunc = Some recordFinished, Timeout_hs = 5 * time_Second\<rparr>)))) =
     [CallStart, CallSendMessage (NewMsgProposeVersions (proposedVersionMap
        (exampleClient ProtocolModeNodeToNode
        (Some \<lparr>ProtocolVersions = [10, 7, 9, 7], NetworkMagic = 764824073, ClientFullDuplex = True,
               FinishedFunc = Some recordFinished, Timeout_hs = 5 * time_Second\<rparr>))))]
   \<and> sorted (map unat (emittedVersions (NewMsgProposeVersions (proposedVersionMap
        (exampleClient ProtocolModeNodeToNode
        (Some \<lparr>ProtocolVersions = [10, 7, 9, 7], NetworkMagic = 764824073, ClientFullDuplex = True,
               FinishedFunc = Some recordFinished, Timeout_hs = 5 * time_Second\<rparr>))))))
   \<and> set (emittedVersions (NewMsgProposeVersions (proposedVersionMap
        (exampleClient ProtocolModeNodeToNode
        (Some \<lparr>ProtocolVersions = [10, 7, 9, 7], NetworkMagic = 764824073, ClientFullDuplex = True,
               FinishedFunc = Some recordFinished, Timeout_hs = 5 * time_Second\<rparr>)))))
       = set [10, 7, 9, 7]"
  using C6_versions_ascending [of
      "exampleClient ProtocolModeNodeToNode
        (Some \<lparr>ProtocolVersions = [10, 7, 9, 7], NetworkMagic = 764824073, ClientFullDuplex = True,
               FinishedFunc = Some recordFinished, Timeout_hs = 5 * time_Second\<rparr>)"]
  by (simp add: exampleClient_def NewClient_config)

text \<open>The versions 10, 7, 9, 7, configured in this order, are written as 7, 9, 10.\<close>

lemma emittedVersions_example:
  "emittedVersions (MsgProposeVersions (proposedVersionMap (exampleClient ProtocolModeNodeToNode
        (Some \<lparr>ProtocolVersions = [10, 7, 9, 7], NetworkMagic = 764824073, ClientFullDuplex = True,
               FinishedFunc = None, Timeout_hs = 5 * time_Second\<rparr>)))) = [7, 9, 10]"
proof -
  have "set [10, 7, 9, 7 :: 16 word] = set [7, 9, 10]"
    by auto
  moreover have "sorted_list_of_set (set [7, 9, 10 :: 16 word]) = [7, 9, 10]"
    by (rule sorted_list_of_set.idem_if_sorted_distinct) simp_all
  ultimately show ?thesis
    by (simp add: emittedVersions_def dom_proposedVersionMap exampleClient_def NewClient_config)
qed

text \<open>
  C8. Start is idempotent: a second Start changes nothing, any positive number of calls
  of Start leaves the client as one call does, and on a client fresh from NewClient the
  protocol has then been started once and one ProposeVersions message has been handed to
  SendMessage.
\<close>

theorem C8_Start_idempotent:
  "Start (Start c) = Start c
   \<and> (Start ^^ Suc n) c = Start c
   \<and> calls (Protocol ((Start ^^ Suc n) (fst (NewClient protoOptions cfg h)))) =
       [CallStart,
        CallSendMessage (NewMsgProposeVersions (proposedVersionMap (fst (NewClient protoOptions cfg h))))]"
proof -
  have "calls (Protocol (Start (fst (NewClient protoOptions cfg h)))) =
       [CallStart,
        CallSendMessage (NewMsgProposeVersions (proposedVersionMap (fst (NewClient protoOptions cfg h))))]"
    by (simp add: Start_fresh NewClient_config NewMsgProposeVersions_def)
  then show ?thesis
    by (simp only: Start_Start Start_funpow simp_thms)
qed

subsection \<open>Message handlers\<close>

text \<open>
  C2, as the code has it. With a completion callback registered, on AcceptVersion whose
  version data has the shape of the wire format (in NodeToNode mode an array whose second
  element is a boolean; any version data in NodeToClient mode, where it is not looked
  into) the client calls the callback once, as finished(version, fullDuplex), and returns
  what it returns; fullDuplex is true exactly when the mode is NodeToNode and the second
  element of the version data is the boolean InitiatorAndResponder. In NodeToClient mode
  fullDuplex is therefore false.
\<close>

theorem C2_handleAcceptVersion_callback:
  assumes "FinishedFunc (config c) = Some finished"
    and "versionDataWellFormed (ClientMode c) versionData"
  shows "handleAcceptVersion c (MsgAcceptVersion version versionData) u =
           Return (finished version
                     (ClientMode c = ProtocolModeNodeToNode
                      \<and> secondElement versionData = Some (VBool DiffusionModeInitiatorAndResponder)) u)
         \<and> handleMessage c (MsgAcceptVersion version versionData) isResponse u =
           handleAcceptVersion c (MsgAcceptVersion version versionData) u"
  using assms
  by (auto simp: handleAcceptVersion_def handleMessage_def versionDataWellFormed_def
      secondElement_def split: ProtocolMode.splits val.splits option.splits)

theorem C2_handleAcceptVersion_callback_witness:
  "handleAcceptVersion
     (exampleClient ProtocolModeNodeToNode
        (Some \<lparr>ProtocolVersions = [7], NetworkMagic = 764824073, ClientFullDuplex = True,
               FinishedFunc = Some recordFinished, Timeout_hs = 5 * time_Second\<rparr>))
     (MsgAcceptVersion 7 (VList [VUint64 764824073, VBool True])) [] = Return (None, [(7, True)])
   \<and> handleAcceptVersion
     (exampleClient ProtocolModeNodeToNode
        (Some \<lparr>ProtocolVersions = [7], NetworkMagic = 764824073, ClientFullDuplex = True,
               FinishedFunc = Some recordFinished, Timeout_hs = 5 * time_Second\<rparr>))
     (MsgAcceptVersion 7 (VList [VUint64 764824073, VBool False])) [] = Return (None, [(7, False)])
   \<and> handleAcceptVersion
     (exampleClient ProtocolModeNodeToClient
        (Some \<lparr>ProtocolVersions = [1], NetworkMagic = 764824073, ClientFullDuplex = False,
               FinishedFunc = Some recordFinished, Timeout_hs = 5 * time_Second\<rparr>))
     (MsgAcceptVersion 1 (VUint64 764824073)) [] = Return (None, [(1, False)])"
  using C2_handleAcceptVersion_callback [of
      "exampleClient ProtocolModeNodeToNode
        (Some \<lparr>ProtocolVersions = [7], NetworkMagic = 764824073, ClientFullDuplex = True,
               FinishedFunc = Some recordFinished, Timeout_hs = 5 * time_Second\<rparr>)"
      recordFinished "VList [VUint64 764824073, VBool True]" 7 "[]"]
    C2_handleAcceptVersion_callback [of
      "exampleClient ProtocolModeNodeToNode
        (Some \<lparr>ProtocolVersions = [7], NetworkMagic = 764824073, ClientFullDuplex = True,
               FinishedFunc = Some recordFinished, Timeout_hs = 5 * time_Second\<rparr>)"
      recordFinished "VList [VUint64 764824073, VBool False]" 7 "[]"]
    C2_handleAcceptVersion_callback [of
      "exampleClient ProtocolModeNodeToClient
        (Some \<lparr>ProtocolVersions = [1], NetworkMagic = 764824073, ClientFullDuplex = False,
               FinishedFunc = Some recordFinished, Timeout_hs = 5 * time_Second\<rparr>)"
      recordFinished "VUint64 764824073" 1 "[]"]
  by (simp add: exampleClient_def NewClient_config versionDataWellFormed_def secondElement_def
      elemAt_def recordFinished_def DiffusionModeInitiatorAndResponder_def)

text \<open>
  Without the condition on the shape the callback is not always called: in NodeToNode
  mode, with a callback registered, the version data [764824073, 1] has a second element,
  the unsigned integer 1, which is not the boolean InitiatorAndResponder; the handler
  does not call finished(7, false) but panics at the type assertion, and the log of the
  callback stays empty.
\<close>

theorem C2_callback_not_invoked:
  "FinishedFunc (config (exampleClient ProtocolModeNodeToNode
        (Some \<lparr>ProtocolVersions = [7], NetworkMagic = 764824073, ClientFullDuplex = True,
               FinishedFunc = Some recordFinished, Timeout_hs = 5 * time_Second\<rparr>)))
     = Some recordFinished
   \<and> secondElement (VList [VUint64 764824073, VUint64 1]) = Some (VUint64 1)
   \<and> handleAcceptVersion
     (exampleClient ProtocolModeNodeToNode
        (Some \<lparr>ProtocolVersions = [7], NetworkMagic = 764824073, ClientFullDuplex = True,
               FinishedFunc = Some recordFinished, Timeout_hs = 5 * time_Second\<rparr>))
     (MsgAcceptVersion 7 (VList [VUint64 764824073, VUint64 1])) [] = Panic
   \<and> handleAcceptVersion
     (exampleClient ProtocolModeNodeToNode
        (Some \<lparr>ProtocolVersions = [7], NetworkMagic = 764824073, ClientFullDuplex = True,
               FinishedFunc = Some recordFinished, Timeout_hs = 5 * time_Second\<rparr>))
     (MsgAcceptVersion 7 (VList [VUint64 764824073, VUint64 1])) []
     \<noteq> Return (recordFinished 7 False [])"
  by (simp add: handleAcceptVersion_def exampleClient_def NewClient_config secondElement_def
      elemAt_def)

text \<open>Version data of another shape in NodeToNode mode: the type assertion or the index
  panics before the callback is called.\<close>

lemma handleAcceptVersion_malformed:
  assumes "FinishedFunc (config c) = Some finished"
    and "\<not> versionDataWellFormed (ClientMode c) versionData"
  shows "handleAcceptVersion c (MsgAcceptVersion version versionData) u = Panic"
  using assms
  by (auto simp: handleAcceptVersion_def versionDataWellFormed_def secondElement_def
      split: ProtocolMode.splits val.splits option.splits)

text \<open>
  C3. With no completion callback registered, the handler of AcceptVersion returns an
  error, whatever the message holds, and nothing else happens: no panic, and the state the
  callback would act on is as before. The message handler returns that error for an
  AcceptVersion message.
\<close>

theorem C3_AcceptVersion_without_callback:
  assumes "FinishedFunc (config c) = None"
  shows "handleAcceptVersion c msg u =
           Return (Some (Errorf ''received handshake AcceptVersion message but no callback function is defined'' []), u)
         \<and> handleMessage c (MsgAcceptVersion version versionData) isResponse u =
           Return (Some (Errorf ''received handshake AcceptVersion message but no callback function is defined'' []), u)"
  using assms by (simp add: handleAcceptVersion_def handleMessage_def)

theorem C3_AcceptVersion_without_callback_witness:
  "handleMessage (exampleClient ProtocolModeNodeToNode None)
      (MsgAcceptVersion 7 (VList [VUint64 764824073, VBool True])) False (0::nat) =
     Return (Some (Errorf ''received handshake AcceptVersion message but no callback function is defined'' []), 0)"
  using C3_AcceptVersion_without_callback [of "exampleClient ProtocolModeNodeToNode None"
      "MsgAcceptVersion 7 (VList [VUint64 764824073, VBool True])" "0::nat" 7
      "VList [VUint64 764824073, VBool True]" False]
  by (simp add: exampleClient_def NewClient_config NewConfig_hs_def)

text \<open>
  C4, as the code has it. On Refuse the client dispatches on the discriminant of the
  reason and returns a formatted error: for VersionMismatch the text
  "<protocol name>: version mismatch", whatever the list of supported versions; for
  DecodeError and Refused the text "<protocol name>: decode error: <message>" and
  "<protocol name>: refused: <message>", with the message string of the reason and
  whatever the version.
\<close>

theorem C4_handleRefuse_errors:
  "handleRefuse c (MsgRefuse (VUint64 RefuseReasonVersionMismatch # payload))
     = Return (Some (Errorf ''%s: version mismatch'' [VString ProtocolName_hs]))
   \<and> handleRefuse c (MsgRefuse (VUint64 RefuseReasonDecodeError # version # VString message # rest))
     = Return (Some (Errorf ''%s: decode error: %s'' [VString ProtocolName_hs, VString message]))
   \<and> handleRefuse c (MsgRefuse (VUint64 RefuseReasonRefused # version # VString message # rest))
     = Return (Some (Errorf ''%s: refused: %s'' [VString ProtocolName_hs, VString message]))"
  by (simp add: handleRefuse_def elemAt_def RefuseReasonVersionMismatch_def
      RefuseReasonDecodeError_def RefuseReasonRefused_def)

text \<open>
  The error does not carry the reason: two refusals for version mismatch with different
  lists of supported versions give the same error, made of the protocol name alone, and
  two decode-error refusals that differ in the version give the same error.
\<close>

theorem C4_reason_not_carried:
  "handleRefuse (exampleClient ProtocolModeNodeToNode (None :: unit Config_hs option))
     (MsgRefuse [VUint64 RefuseReasonVersionMismatch, VList [VUint64 4, VUint64 5, VUint64 6]])
   = Return (Some (Errorf ''%s: version mismatch'' [VString ProtocolName_hs]))
   \<and> handleRefuse (exampleClient ProtocolModeNodeToNode (None :: unit Config_hs option))
     (MsgRefuse [VUint64 RefuseReasonVersionMismatch, VList [VUint64 9]])
   = Return (Some (Errorf ''%s: version mismatch'' [VString ProtocolName_hs]))
   \<and> handleRefuse (exampleClient ProtocolModeNodeToNode (None :: unit Config_hs option))
     (MsgRefuse [VUint64 RefuseReasonDecodeError, VUint64 3, VString ''bad''])
   = handleRefuse (exampleClient ProtocolModeNodeToNode (None :: unit Config_hs option))
     (MsgRefuse [VUint64 RefuseReasonDecodeError, VUint64 9, VString ''bad''])"
  by (simp add: handleRefuse_def elemAt_def RefuseReasonVersionMismatch_def
      RefuseReasonDecodeError_def RefuseReasonRefused_def)

text \<open>
  C10. A Refuse message whose reason has a discriminant other than VersionMismatch,
  DecodeError and Refused makes handleRefuse return nil: no error is reported for it.
\<close>

theorem C10_handleRefuse_unknown_discriminant:
  assumes "d \<noteq> RefuseReasonVersionMismatch" and "d \<noteq> RefuseReasonDecodeError"
    and "d \<noteq> RefuseReasonRefused"
  shows "handleRefuse c (MsgRefuse (VUint64 d # payload)) = Return None"
  using assms by (simp add: handleRefuse_def elemAt_def)

theorem C10_handleRefuse_unknown_discriminant_witness:
  "handleRefuse (exampleClient ProtocolModeNodeToNode (None :: unit Config_hs option))
     (MsgRefuse [VUint64 3, VUint64 7, VString ''no'']) = Return None"
  using C10_handleRefuse_unknown_discriminant [of 3
      "exampleClient ProtocolModeNodeToNode (None :: unit Config_hs option)"
      "[VUint64 7, VString ''no'']"]
  by (simp add: RefuseReasonVersionMismatch_def RefuseReasonDecodeError_def RefuseReasonRefused_def)

end
